theory Spec2Isabelle
  imports Complex_Main
begin

section \<open>Values and errors of the Python program\<close>

text \<open>
  The program computes with Python floats and, after a call of a numpy function,
  with numpy float64 scalars. A finite float is modelled by the real number it
  stands for, so rounding, overflow and underflow are left out: the theorems
  below are about the formulas the code evaluates, in exact arithmetic. What
  the code does outside real arithmetic is kept as a branch of the model:
  \<^item> a Python-level operation on \<open>None\<close> raises \<open>TypeError\<close>;
  \<^item> a division of two Python numbers by zero raises \<open>ZeroDivisionError\<close>;
  \<^item> reading a property a class does not have raises \<open>AttributeError\<close>;
  \<^item> a numpy operation never raises: the square root of a negative number and a
    division by zero give nan or an infinity, here the one value \<open>NonFinite\<close>.
\<close>

datatype py_error = TypeError | ZeroDivisionError | AttributeError

text \<open>A Python object as the properties of the hierarchy return it.\<close>

datatype pyval = PyNone | PyFloat real

text \<open>A numpy float64 scalar.\<close>

datatype npfloat = Finite real | NonFinite

text \<open>\<open>x * y\<close> for an object \<open>x\<close> and a Python float \<open>y\<close>.\<close>

fun py_mul :: "pyval \<Rightarrow> real \<Rightarrow> py_error + real" where
  "py_mul PyNone y = Inl TypeError"
| "py_mul (PyFloat x) y = Inr (x * y)"

text \<open>\<open>x / y\<close> for two Python numbers.\<close>

definition py_truediv :: "real \<Rightarrow> real \<Rightarrow> py_error + real" where
  "py_truediv x y = (if y = 0 then Inl ZeroDivisionError else Inr (x / y))"

text \<open>\<open>numpy.sqrt(x)\<close> for a Python number \<open>x\<close>: nan below zero.\<close>

definition np_sqrt :: "real \<Rightarrow> npfloat" where
  "np_sqrt x = (if x < 0 then NonFinite else Finite (sqrt x))"

text \<open>\<open>x * v\<close> for a Python number \<open>x\<close> and a float64 \<open>v\<close>: a product with nan or with an
  infinity is nan or an infinity.\<close>

fun np_mul :: "real \<Rightarrow> npfloat \<Rightarrow> npfloat" where
  "np_mul x (Finite y) = Finite (x * y)"
| "np_mul x NonFinite = NonFinite"

text \<open>\<open>v / y\<close> for a float64 \<open>v\<close> and a Python number \<open>y\<close>: numpy divides by zero without
  raising, to nan or an infinity.\<close>

fun np_div :: "npfloat \<Rightarrow> real \<Rightarrow> npfloat" where
  "np_div (Finite x) y = (if y = 0 then NonFinite else Finite (x / y))"
| "np_div NonFinite y = NonFinite"

text \<open>\<open>x / v\<close> for a Python number \<open>x\<close> and a float64 \<open>v\<close> that is finite or nan: a
  zero \<open>v\<close> gives an infinity, nan gives nan.\<close>

fun np_rdiv :: "real \<Rightarrow> npfloat \<Rightarrow> npfloat" where
  "np_rdiv x (Finite y) = (if y = 0 then NonFinite else Finite (x / y))"
| "np_rdiv x NonFinite = NonFinite"

text \<open>\<open>numpy.abs(v)\<close>.\<close>

fun np_abs :: "npfloat \<Rightarrow> npfloat" where
  "np_abs (Finite x) = Finite \<bar>x\<bar>"
| "np_abs NonFinite = NonFinite"


section \<open>hadronic.py: the hierarchy of measured limits\<close>

text \<open>The classes: \<open>EDMLimit\<close> is the base, \<open>eEDMLimit\<close> (electron.py) and the six
  hadronic classes derive from it.\<close>

datatype limit_class =
  EDMLimit | NeutronLimit | HgLimit | XeLimit | TlFLimit | RaLimit | YbLimit | eEDMLimit

text \<open>An instance: its class and the three attributes \<open>__init__\<close> stores.\<close>

record edm_limit =
  cls :: limit_class
  year :: int
  edm_e_cm :: real
  ref :: string

text \<open>Every \<open>__init__\<close> of the hierarchy only calls the base one, which stores its
  arguments.\<close>

definition init :: "limit_class \<Rightarrow> int \<Rightarrow> real \<Rightarrow> string \<Rightarrow> edm_limit" where
  "init c y e r = \<lparr>cls = c, year = y, edm_e_cm = e, ref = r\<rparr>"

text \<open>The class attribute \<open>system\<close>; \<open>eEDMLimit\<close> inherits the base's \<open>None\<close>.\<close>

fun system :: "limit_class \<Rightarrow> string option" where
  "system EDMLimit = None"
| "system NeutronLimit = Some ''neutron''"
| "system HgLimit = Some ''Hg''"
| "system XeLimit = Some ''Xe''"
| "system TlFLimit = Some ''TlF''"
| "system RaLimit = Some ''Ra''"
| "system YbLimit = Some ''Yb''"
| "system eEDMLimit = None"

subsection \<open>Module functions\<close>

definition cEDM_Hg :: "real \<Rightarrow> real" where
  "cEDM_Hg d_Hg = (let factor = (5.7 / 10 ^ 27) / (7.4 / 10 ^ 30) in d_Hg * factor)"

definition hadronic_chromo_EDM_limits_on_new_particle_mass :: "pyval \<Rightarrow> py_error + npfloat" where
  "hadronic_chromo_EDM_limits_on_new_particle_mass d_q =
     (let alpha = 1 / 137;
          m_q = 5;
          prefactor = alpha * m_q / pi;
          cm_to_fm = 10 ^ 15 / 10 ^ 2
      in case py_mul d_q cm_to_fm of
           Inl err \<Rightarrow> Inl err
         | Inr d_q_fm \<Rightarrow>
             (let fm_to_inv_MeV = 1 / 197;
                  d_q_inv_MeV = d_q_fm * fm_to_inv_MeV;
                  MeV_to_TeV = (1.0 / (1 / 10 ^ 6)) * ((1 / 10 ^ 12) / 1.0)
              in case py_truediv (prefactor * 1) d_q_inv_MeV of
                   Inl err \<Rightarrow> Inl err
                 | Inr q \<Rightarrow> Inr (np_mul MeV_to_TeV (np_sqrt q))))"

subsection \<open>The property bodies, class by class\<close>

text \<open>The base class: both bodies are \<open>pass\<close>, so the property is \<open>None\<close>.\<close>

definition EDMLimit_theta_QCD :: "edm_limit \<Rightarrow> pyval" where
  "EDMLimit_theta_QCD self = PyNone"

definition EDMLimit_cEDM :: "edm_limit \<Rightarrow> pyval" where
  "EDMLimit_cEDM self = PyNone"

definition NeutronLimit_theta_QCD :: "edm_limit \<Rightarrow> real" where
  "NeutronLimit_theta_QCD self =
     (let n_edm_theta_factor = 0.0039;
          factor_in_cm = n_edm_theta_factor * (10 ^ 2 / 10 ^ 15)
      in edm_e_cm self / factor_in_cm)"

definition NeutronLimit_cEDM :: "edm_limit \<Rightarrow> real" where
  "NeutronLimit_cEDM self = edm_e_cm self / 0.55"

definition HgLimit_theta_QCD :: "edm_limit \<Rightarrow> real" where
  "HgLimit_theta_QCD self =
     (let graner_ratio = (7.4 / 10 ^ 30) / (1.5 / 10 ^ 10) in edm_e_cm self / graner_ratio)"

definition HgLimit_cEDM :: "edm_limit \<Rightarrow> real" where
  "HgLimit_cEDM self = cEDM_Hg (edm_e_cm self)"

definition XeLimit_theta_QCD :: "edm_limit \<Rightarrow> real" where
  "XeLimit_theta_QCD self =
     (let Hg_factor = (7.4 / 10 ^ 30) / (1.5 / 10 ^ 10);
          Xe_Hg_factor = 10.0
      in edm_e_cm self * Xe_Hg_factor / Hg_factor)"

definition XeLimit_cEDM :: "edm_limit \<Rightarrow> real" where
  "XeLimit_cEDM self = (let eff_d_Hg = edm_e_cm self * 10.0 in cEDM_Hg eff_d_Hg)"

definition TlFLimit_schiff_limit :: "edm_limit \<Rightarrow> real" where
  "TlFLimit_schiff_limit self =
     (let Cho1991_Schiff_limit = 4 / 10 ^ 10;
          Cho1991_TlF_EDM_limit = 2.9 / 10 ^ 23;
          EDM_to_schiff_for_TlF = Cho1991_Schiff_limit / Cho1991_TlF_EDM_limit
      in EDM_to_schiff_for_TlF * edm_e_cm self)"

definition TlFLimit_theta_QCD :: "edm_limit \<Rightarrow> real" where
  "TlFLimit_theta_QCD self = (let theta_factor = 0.027 in TlFLimit_schiff_limit self / theta_factor)"

definition TlFLimit_cEDM :: "edm_limit \<Rightarrow> real" where
  "TlFLimit_cEDM self = (let cEDM_factor = 10 in TlFLimit_schiff_limit self / cEDM_factor / 10 ^ 13)"

definition RaLimit_schiff_limit :: "edm_limit \<Rightarrow> real" where
  "RaLimit_schiff_limit self =
     (let kappa_s = 8.5 / 10 ^ 4;
          edm_e_fm = edm_e_cm self * (10 ^ 15 / 10 ^ 2);
          schiff_moment_limit = edm_e_fm / kappa_s
      in schiff_moment_limit)"

definition RaLimit_theta_QCD :: "edm_limit \<Rightarrow> real" where
  "RaLimit_theta_QCD self = RaLimit_schiff_limit self"

definition RaLimit_g1 :: "edm_limit \<Rightarrow> real" where
  "RaLimit_g1 self =
     (let a1 = 6.0;
          g = 13.5;
          g1_limit = RaLimit_schiff_limit self / (a1 * g)
      in g1_limit)"

definition RaLimit_cEDM :: "edm_limit \<Rightarrow> real" where
  "RaLimit_cEDM self = RaLimit_g1 self / (2 * 10 ^ 14)"

definition YbLimit_schiff_limit :: "edm_limit \<Rightarrow> real" where
  "YbLimit_schiff_limit self =
     (let kappa_s = 1.88 / 10 ^ 4;
          edm_e_fm = edm_e_cm self * (10 ^ 15 / 10 ^ 2);
          schiff_moment_limit = edm_e_fm / kappa_s
      in schiff_moment_limit)"

definition YbLimit_theta_QCD :: "edm_limit \<Rightarrow> real" where
  "YbLimit_theta_QCD self =
     (let theta_QCD_to_Schiff = 0.005 in YbLimit_schiff_limit self / theta_QCD_to_Schiff)"

definition YbLimit_cEDM :: "edm_limit \<Rightarrow> real" where
  "YbLimit_cEDM self =
     (let d_Yb_equivalent_d_Hg = 0.6;
          eff_d_Hg = edm_e_cm self / d_Yb_equivalent_d_Hg
      in cEDM_Hg eff_d_Hg)"

subsection \<open>Reading a property: the method resolution of the classes\<close>

text \<open>\<open>eEDMLimit\<close> overrides neither \<open>theta_QCD\<close> nor \<open>cEDM\<close> (its own versions are
  commented out), so it gets the base's.\<close>

definition theta_QCD :: "edm_limit \<Rightarrow> py_error + pyval" where
  "theta_QCD self =
     (case cls self of
        EDMLimit \<Rightarrow> Inr (EDMLimit_theta_QCD self)
      | NeutronLimit \<Rightarrow> Inr (PyFloat (NeutronLimit_theta_QCD self))
      | HgLimit \<Rightarrow> Inr (PyFloat (HgLimit_theta_QCD self))
      | XeLimit \<Rightarrow> Inr (PyFloat (XeLimit_theta_QCD self))
      | TlFLimit \<Rightarrow> Inr (PyFloat (TlFLimit_theta_QCD self))
      | RaLimit \<Rightarrow> Inr (PyFloat (RaLimit_theta_QCD self))
      | YbLimit \<Rightarrow> Inr (PyFloat (YbLimit_theta_QCD self))
      | eEDMLimit \<Rightarrow> Inr (EDMLimit_theta_QCD self))"

definition cEDM :: "edm_limit \<Rightarrow> py_error + pyval" where
  "cEDM self =
     (case cls self of
        EDMLimit \<Rightarrow> Inr (EDMLimit_cEDM self)
      | NeutronLimit \<Rightarrow> Inr (PyFloat (NeutronLimit_cEDM self))
      | HgLimit \<Rightarrow> Inr (PyFloat (HgLimit_cEDM self))
      | XeLimit \<Rightarrow> Inr (PyFloat (XeLimit_cEDM self))
      | TlFLimit \<Rightarrow> Inr (PyFloat (TlFLimit_cEDM self))
      | RaLimit \<Rightarrow> Inr (PyFloat (RaLimit_cEDM self))
      | YbLimit \<Rightarrow> Inr (PyFloat (YbLimit_cEDM self))
      | eEDMLimit \<Rightarrow> Inr (EDMLimit_cEDM self))"

text \<open>\<open>_schiff_limit\<close> exists on three classes and \<open>_g1\<close> on one; a name cannot start
  with an underscore here, so they are \<open>private_schiff_limit\<close> and \<open>private_g1\<close>.\<close>

definition private_schiff_limit :: "edm_limit \<Rightarrow> py_error + pyval" where
  "private_schiff_limit self =
     (case cls self of
        TlFLimit \<Rightarrow> Inr (PyFloat (TlFLimit_schiff_limit self))
      | RaLimit \<Rightarrow> Inr (PyFloat (RaLimit_schiff_limit self))
      | YbLimit \<Rightarrow> Inr (PyFloat (YbLimit_schiff_limit self))
      | _ \<Rightarrow> Inl AttributeError)"

definition private_g1 :: "edm_limit \<Rightarrow> py_error + pyval" where
  "private_g1 self =
     (case cls self of
        RaLimit \<Rightarrow> Inr (PyFloat (RaLimit_g1 self))
      | _ \<Rightarrow> Inl AttributeError)"

text \<open>\<open>new_particle_mass_from_cEDM\<close> is defined once, on the base, for every class.\<close>

definition new_particle_mass_from_cEDM :: "edm_limit \<Rightarrow> py_error + npfloat" where
  "new_particle_mass_from_cEDM self =
     (case cEDM self of
        Inl err \<Rightarrow> Inl err
      | Inr d \<Rightarrow> hadronic_chromo_EDM_limits_on_new_particle_mass d)"



section \<open>electron.py: the electron limit\<close>

definition eEDMLimit_one_loop_mass_limit :: "edm_limit \<Rightarrow> py_error + npfloat" where
  "eEDMLimit_one_loop_mass_limit self =
     (case py_truediv (1 / 10 ^ 29) (edm_e_cm self) of
        Inl err \<Rightarrow> Inl err
      | Inr q \<Rightarrow> Inr (np_mul 48 (np_sqrt q)))"

definition eEDMLimit_two_loop_mass_limit :: "edm_limit \<Rightarrow> py_error + npfloat" where
  "eEDMLimit_two_loop_mass_limit self =
     (case py_truediv (1 / 10 ^ 29) (edm_e_cm self) of
        Inl err \<Rightarrow> Inl err
      | Inr q \<Rightarrow> Inr (np_mul 2 (np_sqrt q)))"

definition one_loop_mass_limit :: "edm_limit \<Rightarrow> py_error + npfloat" where
  "one_loop_mass_limit self =
     (case cls self of
        eEDMLimit \<Rightarrow> eEDMLimit_one_loop_mass_limit self
      | _ \<Rightarrow> Inl AttributeError)"

definition two_loop_mass_limit :: "edm_limit \<Rightarrow> py_error + npfloat" where
  "two_loop_mass_limit self =
     (case cls self of
        eEDMLimit \<Rightarrow> eEDMLimit_two_loop_mass_limit self
      | _ \<Rightarrow> Inl AttributeError)"


section \<open>Methods on an instance: loads and stores\<close>

text \<open>
  A method runs on an instance and gives its result, or the error it raised, and the
  instance as it is afterwards. A method can change the instance: \<open>__init__\<close> does, by
  three attribute stores.
\<close>

type_synonym 'a action = "edm_limit \<Rightarrow> (py_error + 'a) \<times> edm_limit"

text \<open>\<open>return v\<close>.\<close>

definition m_return :: "'a \<Rightarrow> 'a action" where
  "m_return v self = (Inr v, self)"

text \<open>An error raised on the way.\<close>

definition m_raise :: "py_error \<Rightarrow> 'a action" where
  "m_raise err self = (Inl err, self)"

text \<open>One step after another, on the instance the first step left; an error ends the
  method.\<close>

definition m_bind :: "'a action \<Rightarrow> ('a \<Rightarrow> 'b action) \<Rightarrow> 'b action" where
  "m_bind m f self =
     (case m self of
        (Inl err, self') \<Rightarrow> (Inl err, self')
      | (Inr v, self') \<Rightarrow> f v self')"

definition m_map :: "('a \<Rightarrow> 'b) \<Rightarrow> 'a action \<Rightarrow> 'b action" where
  "m_map f m = m_bind m (\<lambda>v. m_return (f v))"

text \<open>The result of an expression that does not mention \<open>self\<close>: arithmetic on numbers
  already read, or a call of a module function that is passed numbers only.\<close>

definition m_call :: "py_error + 'a \<Rightarrow> 'a action" where
  "m_call res self = (res, self)"

text \<open>The load \<open>self.edm_e_cm\<close>, the only attribute the getters read.\<close>

definition load_edm_e_cm :: "real action" where
  "load_edm_e_cm self = (Inr (edm_e_cm self), self)"

text \<open>The stores \<open>self.year = v\<close>, \<open>self.edm_e_cm = v\<close> and \<open>self.ref = v\<close> of \<open>__init__\<close>.
  No class declares \<open>__slots__\<close>, \<open>__setattr__\<close> or a property under one of these names,
  so the store puts the value into the instance, in \<open>__init__\<close> and anywhere else.\<close>

definition store_year :: "int \<Rightarrow> unit action" where
  "store_year v self = (Inr (), self\<lparr>year := v\<rparr>)"

definition store_edm_e_cm :: "real \<Rightarrow> unit action" where
  "store_edm_e_cm v self = (Inr (), self\<lparr>edm_e_cm := v\<rparr>)"

definition store_ref :: "string \<Rightarrow> unit action" where
  "store_ref v self = (Inr (), self\<lparr>ref := v\<rparr>)"

text \<open>\<open>EDMLimit.__init__\<close>, which every \<open>__init__\<close> of the hierarchy calls and nothing
  else.\<close>

definition EDMLimit_init :: "int \<Rightarrow> real \<Rightarrow> string \<Rightarrow> unit action" where
  "EDMLimit_init year' edm_e_cm' ref' =
     m_bind (store_year year') (\<lambda>_.
     m_bind (store_edm_e_cm edm_e_cm') (\<lambda>_.
     store_ref ref'))"

subsection \<open>The getters as methods\<close>

text \<open>Each getter again, statement by statement, now as a method on the instance.\<close>

definition EDMLimit_theta_QCD_getter :: "pyval action" where
  "EDMLimit_theta_QCD_getter = m_return PyNone"

definition EDMLimit_cEDM_getter :: "pyval action" where
  "EDMLimit_cEDM_getter = m_return PyNone"

definition NeutronLimit_theta_QCD_getter :: "real action" where
  "NeutronLimit_theta_QCD_getter =
     (let n_edm_theta_factor = 0.0039;
          factor_in_cm = n_edm_theta_factor * (10 ^ 2 / 10 ^ 15)
      in m_bind load_edm_e_cm (\<lambda>e. m_return (e / factor_in_cm)))"

definition NeutronLimit_cEDM_getter :: "real action" where
  "NeutronLimit_cEDM_getter = m_bind load_edm_e_cm (\<lambda>e. m_return (e / 0.55))"

definition HgLimit_theta_QCD_getter :: "real action" where
  "HgLimit_theta_QCD_getter =
     (let graner_ratio = (7.4 / 10 ^ 30) / (1.5 / 10 ^ 10)
      in m_bind load_edm_e_cm (\<lambda>e. m_return (e / graner_ratio)))"

definition HgLimit_cEDM_getter :: "real action" where
  "HgLimit_cEDM_getter = m_bind load_edm_e_cm (\<lambda>e. m_return (cEDM_Hg e))"

definition XeLimit_theta_QCD_getter :: "real action" where
  "XeLimit_theta_QCD_getter =
     (let Hg_factor = (7.4 / 10 ^ 30) / (1.5 / 10 ^ 10);
          Xe_Hg_factor = 10.0
      in m_bind load_edm_e_cm (\<lambda>e. m_return (e * Xe_Hg_factor / Hg_factor)))"

definition XeLimit_cEDM_getter :: "real action" where
  "XeLimit_cEDM_getter =
     m_bind load_edm_e_cm (\<lambda>e. let eff_d_Hg = e * 10.0 in m_return (cEDM_Hg eff_d_Hg))"

definition TlFLimit_schiff_limit_getter :: "real action" where
  "TlFLimit_schiff_limit_getter =
     (let Cho1991_Schiff_limit = 4 / 10 ^ 10;
          Cho1991_TlF_EDM_limit = 2.9 / 10 ^ 23;
          EDM_to_schiff_for_TlF = Cho1991_Schiff_limit / Cho1991_TlF_EDM_limit
      in m_bind load_edm_e_cm (\<lambda>e. m_return (EDM_to_schiff_for_TlF * e)))"

definition TlFLimit_theta_QCD_getter :: "real action" where
  "TlFLimit_theta_QCD_getter =
     (let theta_factor = 0.027
      in m_bind TlFLimit_schiff_limit_getter (\<lambda>s. m_return (s / theta_factor)))"

definition TlFLimit_cEDM_getter :: "real action" where
  "TlFLimit_cEDM_getter =
     (let cEDM_factor = 10
      in m_bind TlFLimit_schiff_limit_getter (\<lambda>s. m_return (s / cEDM_factor / 10 ^ 13)))"

definition RaLimit_schiff_limit_getter :: "real action" where
  "RaLimit_schiff_limit_getter =
     (let kappa_s = 8.5 / 10 ^ 4
      in m_bind load_edm_e_cm (\<lambda>e.
           let edm_e_fm = e * (10 ^ 15 / 10 ^ 2);
               schiff_moment_limit = edm_e_fm / kappa_s
           in m_return schiff_moment_limit))"

definition RaLimit_theta_QCD_getter :: "real action" where
  "RaLimit_theta_QCD_getter = m_bind RaLimit_schiff_limit_getter (\<lambda>s. m_return s)"

definition RaLimit_g1_getter :: "real action" where
  "RaLimit_g1_getter =
     (let a1 = 6.0;
          g = 13.5
      in m_bind RaLimit_schiff_limit_getter (\<lambda>s.
           let g1_limit = s / (a1 * g) in m_return g1_limit))"

definition RaLimit_cEDM_getter :: "real action" where
  "RaLimit_cEDM_getter = m_bind RaLimit_g1_getter (\<lambda>g. m_return (g / (2 * 10 ^ 14)))"

definition YbLimit_schiff_limit_getter :: "real action" where
  "YbLimit_schiff_limit_getter =
     (let kappa_s = 1.88 / 10 ^ 4
      in m_bind load_edm_e_cm (\<lambda>e.
           let edm_e_fm = e * (10 ^ 15 / 10 ^ 2);
               schiff_moment_limit = edm_e_fm / kappa_s
           in m_return schiff_moment_limit))"

definition YbLimit_theta_QCD_getter :: "real action" where
  "YbLimit_theta_QCD_getter =
     (let theta_QCD_to_Schiff = 0.005
      in m_bind YbLimit_schiff_limit_getter (\<lambda>s. m_return (s / theta_QCD_to_Schiff)))"

definition YbLimit_cEDM_getter :: "real action" where
  "YbLimit_cEDM_getter =
     (let d_Yb_equivalent_d_Hg = 0.6
      in m_bind load_edm_e_cm (\<lambda>e.
           let eff_d_Hg = e / d_Yb_equivalent_d_Hg in m_return (cEDM_Hg eff_d_Hg)))"

definition eEDMLimit_one_loop_mass_limit_getter :: "npfloat action" where
  "eEDMLimit_one_loop_mass_limit_getter =
     m_bind load_edm_e_cm (\<lambda>e.
     m_bind (m_call (py_truediv (1 / 10 ^ 29) e)) (\<lambda>q.
     m_return (np_mul 48 (np_sqrt q))))"

definition eEDMLimit_two_loop_mass_limit_getter :: "npfloat action" where
  "eEDMLimit_two_loop_mass_limit_getter =
     m_bind load_edm_e_cm (\<lambda>e.
     m_bind (m_call (py_truediv (1 / 10 ^ 29) e)) (\<lambda>q.
     m_return (np_mul 2 (np_sqrt q))))"

subsection \<open>Attribute lookup\<close>

text \<open>\<open>self.name\<close> for a property: the getter of the class of the instance, the base's
  where the class has none of its own, and \<open>AttributeError\<close> where no class on the way
  has the name.\<close>

definition getattr_theta_QCD :: "pyval action" where
  "getattr_theta_QCD self =
     (case cls self of
        EDMLimit \<Rightarrow> EDMLimit_theta_QCD_getter self
      | NeutronLimit \<Rightarrow> m_map PyFloat NeutronLimit_theta_QCD_getter self
      | HgLimit \<Rightarrow> m_map PyFloat HgLimit_theta_QCD_getter self
      | XeLimit \<Rightarrow> m_map PyFloat XeLimit_theta_QCD_getter self
      | TlFLimit \<Rightarrow> m_map PyFloat TlFLimit_theta_QCD_getter self
      | RaLimit \<Rightarrow> m_map PyFloat RaLimit_theta_QCD_getter self
      | YbLimit \<Rightarrow> m_map PyFloat YbLimit_theta_QCD_getter self
      | eEDMLimit \<Rightarrow> EDMLimit_theta_QCD_getter self)"

definition getattr_cEDM :: "pyval action" where
  "getattr_cEDM self =
     (case cls self of
        EDMLimit \<Rightarrow> EDMLimit_cEDM_getter self
      | NeutronLimit \<Rightarrow> m_map PyFloat NeutronLimit_cEDM_getter self
      | HgLimit \<Rightarrow> m_map PyFloat HgLimit_cEDM_getter self
      | XeLimit \<Rightarrow> m_map PyFloat XeLimit_cEDM_getter self
      | TlFLimit \<Rightarrow> m_map PyFloat TlFLimit_cEDM_getter self
      | RaLimit \<Rightarrow> m_map PyFloat RaLimit_cEDM_getter self
      | YbLimit \<Rightarrow> m_map PyFloat YbLimit_cEDM_getter self
      | eEDMLimit \<Rightarrow> EDMLimit_cEDM_getter self)"

definition getattr_schiff_limit :: "pyval action" where
  "getattr_schiff_limit self =
     (case cls self of
        TlFLimit \<Rightarrow> m_map PyFloat TlFLimit_schiff_limit_getter self
      | RaLimit \<Rightarrow> m_map PyFloat RaLimit_schiff_limit_getter self
      | YbLimit \<Rightarrow> m_map PyFloat YbLimit_schiff_limit_getter self
      | _ \<Rightarrow> m_raise AttributeError self)"

definition getattr_g1 :: "pyval action" where
  "getattr_g1 self =
     (case cls self of
        RaLimit \<Rightarrow> m_map PyFloat RaLimit_g1_getter self
      | _ \<Rightarrow> m_raise AttributeError self)"

text \<open>\<open>EDMLimit.new_particle_mass_from_cEDM\<close>: the read \<open>self.cEDM\<close>, then the module
  function on what it gave.\<close>

definition EDMLimit_new_particle_mass_from_cEDM_getter :: "npfloat action" where
  "EDMLimit_new_particle_mass_from_cEDM_getter =
     m_bind getattr_cEDM (\<lambda>d. m_call (hadronic_chromo_EDM_limits_on_new_particle_mass d))"

definition getattr_one_loop_mass_limit :: "npfloat action" where
  "getattr_one_loop_mass_limit self =
     (case cls self of
        eEDMLimit \<Rightarrow> eEDMLimit_one_loop_mass_limit_getter self
      | _ \<Rightarrow> m_raise AttributeError self)"

definition getattr_two_loop_mass_limit :: "npfloat action" where
  "getattr_two_loop_mass_limit self =
     (case cls self of
        eEDMLimit \<Rightarrow> eEDMLimit_two_loop_mass_limit_getter self
      | _ \<Rightarrow> m_raise AttributeError self)"

text \<open>The derived properties of the hierarchy, by name.\<close>

datatype property =
  Prop_theta_QCD | Prop_cEDM | Prop_schiff_limit | Prop_g1 | Prop_new_particle_mass_from_cEDM
  | Prop_one_loop_mass_limit | Prop_two_loop_mass_limit

text \<open>What a read gives: a Python object or a float64.\<close>

datatype attr_value = Obj pyval | Np npfloat

text \<open>The read \<open>self.p\<close> of a derived property.\<close>

definition read_property :: "property \<Rightarrow> attr_value action" where
  "read_property p =
     (case p of
        Prop_theta_QCD \<Rightarrow> m_map Obj getattr_theta_QCD
      | Prop_cEDM \<Rightarrow> m_map Obj getattr_cEDM
      | Prop_schiff_limit \<Rightarrow> m_map Obj getattr_schiff_limit
      | Prop_g1 \<Rightarrow> m_map Obj getattr_g1
      | Prop_new_particle_mass_from_cEDM \<Rightarrow> m_map Np EDMLimit_new_particle_mass_from_cEDM_getter
      | Prop_one_loop_mass_limit \<Rightarrow> m_map Np getattr_one_loop_mass_limit
      | Prop_two_loop_mass_limit \<Rightarrow> m_map Np getattr_two_loop_mass_limit)"

text \<open>A sequence of reads on one instance, each on the instance the one before left.\<close>

fun read_properties :: "property list \<Rightarrow> edm_limit \<Rightarrow> (py_error + attr_value) list \<times> edm_limit" where
  "read_properties [] self = ([], self)"
| "read_properties (p # ps) self =
     (case read_property p self of
        (v, self') \<Rightarrow> (case read_properties ps self' of (vs, self'') \<Rightarrow> (v # vs, self'')))"


section \<open>schiff.py: the sensitivity of a proposed measurement\<close>

record MeasurementSettings =
  particle_number :: real
  efficiency :: real
  measurement_time :: real
  down_time :: real
  coherence_time :: real

text \<open>\<open>MeasurementSettings()\<close>, every argument at its default.\<close>

definition MeasurementSettings_default :: MeasurementSettings where
  "MeasurementSettings_default =
     \<lparr>particle_number = 1, efficiency = 0.99, measurement_time = 864000,
      down_time = 30 / 10 ^ 3, coherence_time = 100\<rparr>"

definition frequency_sensitivity_Hz :: "MeasurementSettings \<Rightarrow> py_error + npfloat" where
  "frequency_sensitivity_Hz measurement_settings =
     (let ms = measurement_settings;
          T_total = measurement_time ms;
          T_down = down_time ms;
          tau = coherence_time ms;
          beta = efficiency ms;
          N = particle_number ms;
          prefactor = 2 * pi * tau * beta
      in case py_truediv (N * T_total) (tau + T_down) of
           Inl err \<Rightarrow> Inl err
         | Inr q \<Rightarrow>
             (let denominator = np_mul prefactor (np_sqrt q)
              in Inr (np_rdiv 1 denominator)))"

record Molecule =
  W_S :: real
  K_S :: real
  a_0 :: real
  a_1 :: real
  a_2 :: real
  molecule_name :: "string option"
  nucleus_E_field_alignment :: real

definition Molecule_init :: "real \<Rightarrow> real \<Rightarrow> real \<Rightarrow> real \<Rightarrow> real \<Rightarrow> Molecule" where
  "Molecule_init w k a0 a1 a2 =
     \<lparr>W_S = w, K_S = k, a_0 = a0, a_1 = a1, a_2 = a2,
      molecule_name = None, nucleus_E_field_alignment = 0.25\<rparr>"

text \<open>\<open>Molecule()\<close>, every argument at its default.\<close>

definition Molecule_default :: Molecule where
  "Molecule_default = Molecule_init 45000 1.0 (- 1.5) 6.0 (- 4.0)"

text \<open>The constants the module reads from \<open>scipy.constants\<close>, which is not part of the
  repository: they are parameters of the functions that use them.\<close>

record constants =
  c_e :: real
  c_hbar :: real
  c_epsilon_0 :: real
  c_Bohr_radius :: real

definition schiff_SI :: "constants \<Rightarrow> Molecule \<Rightarrow> real" where
  "schiff_SI c self =
     (let fm = 1 / 10 ^ 15;
          Schiff_au_to_SI = c_e c * fm ^ 3
      in Schiff_au_to_SI * K_S self)"

definition W_S_SI :: "constants \<Rightarrow> Molecule \<Rightarrow> py_error + real" where
  "W_S_SI c self =
     (let bohr_radius = c_Bohr_radius c;
          electric_const = 4.0 * pi * c_epsilon_0 c
      in case py_truediv (c_e c) (electric_const * bohr_radius ^ 4) of
           Inl err \<Rightarrow> Inl err
         | Inr W_S_au_to_SI \<Rightarrow> Inr (W_S_au_to_SI * W_S self))"

definition theta_QCD_sensitivity :: "constants \<Rightarrow> MeasurementSettings \<Rightarrow> Molecule \<Rightarrow> py_error + npfloat" where
  "theta_QCD_sensitivity c measurement_settings molecule =
     (case frequency_sensitivity_Hz measurement_settings of
        Inl err \<Rightarrow> Inl err
      | Inr f \<Rightarrow>
          (let delta_omega = np_mul (2 * pi) f;
               S = schiff_SI c molecule
           in case W_S_SI c molecule of
                Inl err \<Rightarrow> Inl err
              | Inr W_S' \<Rightarrow>
                  (let opposite_state_enhancement = 2
                   in case py_truediv 1.0 (opposite_state_enhancement * nucleus_E_field_alignment molecule) of
                        Inl err \<Rightarrow> Inl err
                      | Inr orientation_enhancement \<Rightarrow>
                          Inr (np_div (np_mul (orientation_enhancement * c_hbar c) delta_omega) (W_S' * S)))))"

definition schiff_moment_sensitivity :: "constants \<Rightarrow> MeasurementSettings \<Rightarrow> Molecule \<Rightarrow> py_error + npfloat" where
  "schiff_moment_sensitivity c measurement_settings molecule =
     (case theta_QCD_sensitivity c measurement_settings molecule of
        Inl err \<Rightarrow> Inl err
      | Inr theta_limit \<Rightarrow> Inr (np_mul (K_S molecule) theta_limit))"

definition g_pi_NN_to_Schiff_prefactor :: real where
  "g_pi_NN_to_Schiff_prefactor =
     (let delta_u_p = 0.746;
          delta_u_n = - 0.508;
          g_A = delta_u_p - delta_u_n;
          F_pi = 185;
          m_N = 995
      in 2.0 * m_N * g_A / F_pi)"

definition g_0_sensitivity :: "constants \<Rightarrow> MeasurementSettings \<Rightarrow> Molecule \<Rightarrow> py_error + npfloat" where
  "g_0_sensitivity c measurement_settings molecule =
     (case schiff_moment_sensitivity c measurement_settings molecule of
        Inl err \<Rightarrow> Inl err
      | Inr schiff_limit \<Rightarrow>
          (let prefactor = g_pi_NN_to_Schiff_prefactor
           in Inr (np_abs (np_div schiff_limit (prefactor * a_0 molecule)))))"

definition g_1_sensitivity :: "constants \<Rightarrow> MeasurementSettings \<Rightarrow> Molecule \<Rightarrow> py_error + npfloat" where
  "g_1_sensitivity c measurement_settings molecule =
     (case schiff_moment_sensitivity c measurement_settings molecule of
        Inl err \<Rightarrow> Inl err
      | Inr schiff_limit \<Rightarrow>
          (let prefactor = g_pi_NN_to_Schiff_prefactor
           in Inr (np_div schiff_limit (prefactor * a_1 molecule))))"

definition g_2_sensitivity :: "constants \<Rightarrow> MeasurementSettings \<Rightarrow> Molecule \<Rightarrow> py_error + npfloat" where
  "g_2_sensitivity c measurement_settings molecule =
     (case schiff_moment_sensitivity c measurement_settings molecule of
        Inl err \<Rightarrow> Inl err
      | Inr schiff_limit \<Rightarrow>
          (let prefactor = g_pi_NN_to_Schiff_prefactor
           in Inr (np_abs (np_div schiff_limit (prefactor * a_2 molecule)))))"

text \<open>The module's own copy of the mass-scale function, for an argument that is \<open>None\<close> or
  a Python float, as the hierarchy passes it.\<close>

definition schiff_chromo_EDM_limits_on_new_particle_mass :: "pyval \<Rightarrow> py_error + npfloat" where
  "schiff_chromo_EDM_limits_on_new_particle_mass d_q =
     (let alpha = 1 / 137;
          m_q = 5;
          prefactor = alpha * m_q / pi;
          cm_to_fm = 10 ^ 15 / 10 ^ 2
      in case py_mul d_q cm_to_fm of
           Inl err \<Rightarrow> Inl err
         | Inr d_q_fm \<Rightarrow>
             (let fm_to_inv_MeV = 1 / 197;
                  d_q_inv_MeV = d_q_fm * fm_to_inv_MeV;
                  MeV_to_TeV = (1.0 / (1 / 10 ^ 6)) * ((1 / 10 ^ 12) / 1.0)
              in case py_truediv (prefactor * 1) d_q_inv_MeV of
                   Inl err \<Rightarrow> Inl err
                 | Inr q \<Rightarrow> Inr (np_mul MeV_to_TeV (np_sqrt q))))"


section \<open>The conversions of the measured systems\<close>

lemmas hierarchy_defs =
  theta_QCD_def cEDM_def private_schiff_limit_def private_g1_def init_def
  EDMLimit_theta_QCD_def EDMLimit_cEDM_def
  NeutronLimit_theta_QCD_def NeutronLimit_cEDM_def HgLimit_theta_QCD_def HgLimit_cEDM_def
  XeLimit_theta_QCD_def XeLimit_cEDM_def TlFLimit_schiff_limit_def TlFLimit_theta_QCD_def
  TlFLimit_cEDM_def RaLimit_schiff_limit_def RaLimit_theta_QCD_def RaLimit_g1_def
  RaLimit_cEDM_def YbLimit_schiff_limit_def YbLimit_theta_QCD_def YbLimit_cEDM_def
  cEDM_Hg_def Let_def

text \<open>
  Claim C1. For each of the six hadronic classes and every bound, \<open>theta_QCD\<close> and
  \<open>cEDM\<close> are the formulas of the table: the neutron divides by
  \<open>0.0039 * (1e2/1e15)\<close> and by \<open>0.55\<close>; Hg divides by \<open>7.4e-30/1.5e-10\<close> and
  multiplies by \<open>5.7e-27/7.4e-30\<close>; Xe multiplies by \<open>10 * (1.5e-10/7.4e-30)\<close> and applies
  the Hg rule to ten times the bound; TlF, Ra and Yb go through the Schiff limit
  (\<open>(4e-10/2.9e-23) * bound\<close>, and \<open>bound * 1e13\<close> over \<open>8.5e-4\<close> or \<open>1.88e-4\<close>), with
  TlF \<open>schiff/0.027\<close> and \<open>schiff/10/1e13\<close>, Ra \<open>schiff\<close> and \<open>(schiff/(6.0*13.5))/2e14\<close>,
  Yb \<open>schiff/0.005\<close> and the Hg rule applied to \<open>bound/0.6\<close>. In particular the
  chromo-EDM of \<open>NeutronLimit(2020, 1e-26, "x")\<close> is \<open>1e-26/0.55\<close>.
\<close>

theorem hadronic_conversion_table:
  fixes b :: real
  shows
  "theta_QCD (init NeutronLimit y b r) = Inr (PyFloat (b / (0.0039 * (10 ^ 2 / 10 ^ 15)))) \<and>
   cEDM (init NeutronLimit y b r) = Inr (PyFloat (b / 0.55)) \<and>
   theta_QCD (init HgLimit y b r) = Inr (PyFloat (b / ((7.4 / 10 ^ 30) / (1.5 / 10 ^ 10)))) \<and>
   cEDM (init HgLimit y b r) = Inr (PyFloat (b * ((5.7 / 10 ^ 27) / (7.4 / 10 ^ 30)))) \<and>
   theta_QCD (init XeLimit y b r) = Inr (PyFloat (b * 10 * ((1.5 / 10 ^ 10) / (7.4 / 10 ^ 30)))) \<and>
   cEDM (init XeLimit y b r) = cEDM (init HgLimit y (b * 10) r) \<and>
   private_schiff_limit (init TlFLimit y b r) = Inr (PyFloat (((4 / 10 ^ 10) / (2.9 / 10 ^ 23)) * b)) \<and>
   private_schiff_limit (init RaLimit y b r) = Inr (PyFloat (b * 10 ^ 13 / (8.5 / 10 ^ 4))) \<and>
   private_schiff_limit (init YbLimit y b r) = Inr (PyFloat (b * 10 ^ 13 / (1.88 / 10 ^ 4))) \<and>
   theta_QCD (init TlFLimit y b r) = Inr (PyFloat (TlFLimit_schiff_limit (init TlFLimit y b r) / 0.027)) \<and>
   cEDM (init TlFLimit y b r) = Inr (PyFloat (TlFLimit_schiff_limit (init TlFLimit y b r) / 10 / 10 ^ 13)) \<and>
   theta_QCD (init RaLimit y b r) = Inr (PyFloat (RaLimit_schiff_limit (init RaLimit y b r))) \<and>
   cEDM (init RaLimit y b r) =
     Inr (PyFloat ((RaLimit_schiff_limit (init RaLimit y b r) / (6.0 * 13.5)) / (2 * 10 ^ 14))) \<and>
   theta_QCD (init YbLimit y b r) = Inr (PyFloat (YbLimit_schiff_limit (init YbLimit y b r) / 0.005)) \<and>
   cEDM (init YbLimit y b r) = cEDM (init HgLimit y (b / 0.6) r) \<and>
   cEDM (init NeutronLimit 2020 (1 / 10 ^ 26) ''x'') = Inr (PyFloat ((1 / 10 ^ 26) / 0.55))"
  by (simp add: hierarchy_defs)


text \<open>Each conversion of a hadronic class is the bound times a positive constant.\<close>

lemma theta_QCD_linear:
  assumes "system c \<noteq> None"
  shows "\<exists>k. 0 < k \<and> (\<forall>y b r. theta_QCD (init c y b r) = Inr (PyFloat (k * b)))"
proof (cases c)
  case NeutronLimit
  show ?thesis unfolding NeutronLimit
    by (rule exI [of _ "1 / (0.0039 * (10 ^ 2 / 10 ^ 15))"]) (simp add: hierarchy_defs)
next
  case HgLimit
  show ?thesis unfolding HgLimit
    by (rule exI [of _ "1 / ((7.4 / 10 ^ 30) / (1.5 / 10 ^ 10))"]) (simp add: hierarchy_defs)
next
  case XeLimit
  show ?thesis unfolding XeLimit
    by (rule exI [of _ "10 / ((7.4 / 10 ^ 30) / (1.5 / 10 ^ 10))"]) (simp add: hierarchy_defs)
next
  case TlFLimit
  show ?thesis unfolding TlFLimit
    by (rule exI [of _ "((4 / 10 ^ 10) / (2.9 / 10 ^ 23)) / 0.027"]) (simp add: hierarchy_defs)
next
  case RaLimit
  show ?thesis unfolding RaLimit
    by (rule exI [of _ "(10 ^ 15 / 10 ^ 2) / (8.5 / 10 ^ 4)"]) (simp add: hierarchy_defs)
next
  case YbLimit
  show ?thesis unfolding YbLimit
    by (rule exI [of _ "(10 ^ 15 / 10 ^ 2) / (1.88 / 10 ^ 4) / 0.005"]) (simp add: hierarchy_defs)
qed (use assms in simp_all)

lemma cEDM_linear:
  assumes "system c \<noteq> None"
  shows "\<exists>k. 0 < k \<and> (\<forall>y b r. cEDM (init c y b r) = Inr (PyFloat (k * b)))"
proof (cases c)
  case NeutronLimit
  show ?thesis unfolding NeutronLimit
    by (rule exI [of _ "1 / 0.55"]) (simp add: hierarchy_defs)
next
  case HgLimit
  show ?thesis unfolding HgLimit
    by (rule exI [of _ "(5.7 / 10 ^ 27) / (7.4 / 10 ^ 30)"]) (simp add: hierarchy_defs)
next
  case XeLimit
  show ?thesis unfolding XeLimit
    by (rule exI [of _ "10 * ((5.7 / 10 ^ 27) / (7.4 / 10 ^ 30))"]) (simp add: hierarchy_defs)
next
  case TlFLimit
  show ?thesis unfolding TlFLimit
    by (rule exI [of _ "((4 / 10 ^ 10) / (2.9 / 10 ^ 23)) / 10 / 10 ^ 13"]) (simp add: hierarchy_defs)
next
  case RaLimit
  show ?thesis unfolding RaLimit
    by (rule exI [of _ "(10 ^ 15 / 10 ^ 2) / (8.5 / 10 ^ 4) / (6.0 * 13.5) / (2 * 10 ^ 14)"])
      (simp add: hierarchy_defs)
next
  case YbLimit
  show ?thesis unfolding YbLimit
    by (rule exI [of _ "(1 / 0.6) * ((5.7 / 10 ^ 27) / (7.4 / 10 ^ 30))"]) (simp add: hierarchy_defs)
qed (use assms in simp_all)

text \<open>
  Claim C6, as stated: the conversions take the absolute value of the bound, so the
  result at \<open>- b\<close> is the result at \<open>b\<close>. The code takes no absolute value: for the
  neutron the angle at \<open>- 1\<close> is not the angle at \<open>1\<close>.
\<close>

theorem conversions_take_abs_counterexample:
  "theta_QCD (init NeutronLimit 2020 (- 1) ''x'') \<noteq> theta_QCD (init NeutronLimit 2020 \<bar>- 1\<bar> ''x'') \<and>
   cEDM (init NeutronLimit 2020 (- 1) ''x'') \<noteq> cEDM (init NeutronLimit 2020 \<bar>- 1\<bar> ''x'')"
  by (simp add: hierarchy_defs)

text \<open>
  Claim C6, amended. For every hadronic class (a class with a \<open>system\<close> name) the
  conversions pass the sign of the bound through: \<open>theta_QCD\<close> and \<open>cEDM\<close> at \<open>- b\<close> are
  the negatives of those at \<open>b\<close>, and they are the values at \<open>\<bar>b\<bar>\<close> exactly when
  \<open>b\<close> is not negative.
\<close>

theorem conversions_are_odd:
  assumes "system c \<noteq> None"
  shows "(\<exists>t d. theta_QCD (init c y b r) = Inr (PyFloat t) \<and>
           theta_QCD (init c y (- b) r) = Inr (PyFloat (- t)) \<and>
           cEDM (init c y b r) = Inr (PyFloat d) \<and>
           cEDM (init c y (- b) r) = Inr (PyFloat (- d))) \<and>
         (theta_QCD (init c y b r) = theta_QCD (init c y \<bar>b\<bar> r) \<longleftrightarrow> 0 \<le> b) \<and>
         (cEDM (init c y b r) = cEDM (init c y \<bar>b\<bar> r) \<longleftrightarrow> 0 \<le> b)"
proof -
  obtain k where k: "0 < k" "\<And>y b r. theta_QCD (init c y b r) = Inr (PyFloat (k * b))"
    using theta_QCD_linear [OF assms] by blast
  obtain j where j: "0 < j" "\<And>y b r. cEDM (init c y b r) = Inr (PyFloat (j * b))"
    using cEDM_linear [OF assms] by blast
  have "k * b = k * \<bar>b\<bar> \<longleftrightarrow> 0 \<le> b" "j * b = j * \<bar>b\<bar> \<longleftrightarrow> 0 \<le> b"
    using k(1) j(1) by auto
  then show ?thesis
    by (simp add: k(2) j(2))
qed

theorem conversions_are_odd_witness:
  "system NeutronLimit \<noteq> None \<and>
   theta_QCD (init NeutronLimit 2020 (- 3) ''x'') \<noteq> theta_QCD (init NeutronLimit 2020 \<bar>- 3\<bar> ''x'')"
  using conversions_are_odd [of NeutronLimit 2020 "- 3" "''x''"] by simp


section \<open>Properties without a conversion\<close>

text \<open>
  Claim C3, as stated: \<open>theta_QCD\<close> or \<open>cEDM\<close> on the base class, or \<open>cEDM\<close> on the
  electron class, raises an error instead of returning a value. The bodies are
  \<open>pass\<close>: the reads return, and raise nothing.
\<close>

theorem unimplemented_conversion_counterexample:
  "\<not> isl (theta_QCD (init EDMLimit 2020 (1 / 10 ^ 26) ''x'')) \<and>
   \<not> isl (cEDM (init EDMLimit 2020 (1 / 10 ^ 26) ''x'')) \<and>
   \<not> isl (cEDM (init eEDMLimit 2020 (1 / 10 ^ 26) ''x''))"
  by (simp add: hierarchy_defs)

text \<open>
  Claim C3, amended. \<open>theta_QCD\<close> and \<open>cEDM\<close> on the base class and on the electron class
  raise no error: each returns \<open>None\<close>, whatever the instance holds.
\<close>

theorem base_and_electron_return_None:
  "theta_QCD (init EDMLimit y b r) = Inr PyNone \<and>
   cEDM (init EDMLimit y b r) = Inr PyNone \<and>
   theta_QCD (init eEDMLimit y b r) = Inr PyNone \<and>
   cEDM (init eEDMLimit y b r) = Inr PyNone"
  by (simp add: hierarchy_defs)

text \<open>
  Claim C9. On the electron class and on the base class \<open>new_particle_mass_from_cEDM\<close>
  can be read and always fails with a type error: \<open>cEDM\<close> gives \<open>None\<close>, which the
  mass-scale function multiplies by a float. It returns no number and raises no
  other error.
\<close>

theorem mass_from_cEDM_TypeError:
  "new_particle_mass_from_cEDM (init eEDMLimit y b r) = Inl TypeError \<and>
   new_particle_mass_from_cEDM (init EDMLimit y b r) = Inl TypeError"
  by (simp add: new_particle_mass_from_cEDM_def hierarchy_defs
      hadronic_chromo_EDM_limits_on_new_particle_mass_def)


section \<open>Reads do not change an instance, stores do\<close>

lemmas action_defs = m_return_def m_raise_def m_bind_def m_map_def m_call_def load_edm_e_cm_def

lemmas getter_defs =
  EDMLimit_theta_QCD_getter_def EDMLimit_cEDM_getter_def
  NeutronLimit_theta_QCD_getter_def NeutronLimit_cEDM_getter_def
  HgLimit_theta_QCD_getter_def HgLimit_cEDM_getter_def
  XeLimit_theta_QCD_getter_def XeLimit_cEDM_getter_def
  TlFLimit_schiff_limit_getter_def TlFLimit_theta_QCD_getter_def TlFLimit_cEDM_getter_def
  RaLimit_schiff_limit_getter_def RaLimit_theta_QCD_getter_def RaLimit_g1_getter_def
  RaLimit_cEDM_getter_def
  YbLimit_schiff_limit_getter_def YbLimit_theta_QCD_getter_def YbLimit_cEDM_getter_def

text \<open>Each read runs the getter's statements; what comes out is the value the property has
  as a function of the instance, and the instance the statements left.\<close>

lemma getattr_theta_QCD_run: "getattr_theta_QCD self = (theta_QCD self, self)"
  by (cases "cls self") (simp_all add: getattr_theta_QCD_def getter_defs action_defs hierarchy_defs)

lemma getattr_cEDM_run: "getattr_cEDM self = (cEDM self, self)"
  by (cases "cls self") (simp_all add: getattr_cEDM_def getter_defs action_defs hierarchy_defs)

lemma getattr_schiff_limit_run: "getattr_schiff_limit self = (private_schiff_limit self, self)"
  by (cases "cls self") (simp_all add: getattr_schiff_limit_def getter_defs action_defs hierarchy_defs)

lemma getattr_g1_run: "getattr_g1 self = (private_g1 self, self)"
  by (cases "cls self") (simp_all add: getattr_g1_def getter_defs action_defs hierarchy_defs)

lemma new_particle_mass_from_cEDM_run:
  "EDMLimit_new_particle_mass_from_cEDM_getter self = (new_particle_mass_from_cEDM self, self)"
  by (simp add: EDMLimit_new_particle_mass_from_cEDM_getter_def m_bind_def m_call_def
      getattr_cEDM_run new_particle_mass_from_cEDM_def split: sum.splits)

lemma getattr_one_loop_mass_limit_run:
  "getattr_one_loop_mass_limit self = (one_loop_mass_limit self, self)"
  by (cases "cls self")
    (simp_all add: getattr_one_loop_mass_limit_def eEDMLimit_one_loop_mass_limit_getter_def
      one_loop_mass_limit_def eEDMLimit_one_loop_mass_limit_def action_defs split: sum.splits)

lemma getattr_two_loop_mass_limit_run:
  "getattr_two_loop_mass_limit self = (two_loop_mass_limit self, self)"
  by (cases "cls self")
    (simp_all add: getattr_two_loop_mass_limit_def eEDMLimit_two_loop_mass_limit_getter_def
      two_loop_mass_limit_def eEDMLimit_two_loop_mass_limit_def action_defs split: sum.splits)

lemma m_map_run: "m self = (res, self') \<Longrightarrow> m_map f m self = (map_sum id f res, self')"
  by (cases res) (simp_all add: m_map_def m_bind_def m_return_def)

lemma read_property_run:
  "read_property p self =
     (case p of
        Prop_theta_QCD \<Rightarrow> map_sum id Obj (theta_QCD self)
      | Prop_cEDM \<Rightarrow> map_sum id Obj (cEDM self)
      | Prop_schiff_limit \<Rightarrow> map_sum id Obj (private_schiff_limit self)
      | Prop_g1 \<Rightarrow> map_sum id Obj (private_g1 self)
      | Prop_new_particle_mass_from_cEDM \<Rightarrow> map_sum id Np (new_particle_mass_from_cEDM self)
      | Prop_one_loop_mass_limit \<Rightarrow> map_sum id Np (one_loop_mass_limit self)
      | Prop_two_loop_mass_limit \<Rightarrow> map_sum id Np (two_loop_mass_limit self),
      self)"
  by (cases p)
    (simp_all add: read_property_def
      m_map_run [OF getattr_theta_QCD_run] m_map_run [OF getattr_cEDM_run]
      m_map_run [OF getattr_schiff_limit_run] m_map_run [OF getattr_g1_run]
      m_map_run [OF new_particle_mass_from_cEDM_run]
      m_map_run [OF getattr_one_loop_mass_limit_run] m_map_run [OF getattr_two_loop_mass_limit_run])

lemma read_property_snd: "snd (read_property p self) = self"
  by (simp add: read_property_run)

lemma read_properties_frame:
  "snd (read_properties ps self) = self \<and>
   fst (read_properties ps self) = map (\<lambda>p. fst (read_property p self)) ps"
proof (induction ps)
  case Nil
  show ?case by simp
next
  case (Cons p ps)
  obtain v s1 where p: "read_property p self = (v, s1)"
    by (cases "read_property p self")
  from read_property_snd [of p self] p have s1: "s1 = self" by simp
  obtain vs s2 where ps: "read_properties ps self = (vs, s2)"
    by (cases "read_properties ps self")
  from Cons.IH ps have "s2 = self" "vs = map (\<lambda>p. fst (read_property p self)) ps" by simp_all
  with p s1 ps show ?case by simp
qed

lemma read_property_bound_only:
  "fst (read_property p (self\<lparr>year := y, ref := r\<rparr>)) = fst (read_property p self)"
  by (cases p; cases "cls self")
    (simp_all add: read_property_run hierarchy_defs new_particle_mass_from_cEDM_def
      one_loop_mass_limit_def two_loop_mass_limit_def eEDMLimit_one_loop_mass_limit_def
      eEDMLimit_two_loop_mass_limit_def)

lemma EDMLimit_init_run: "EDMLimit_init y e r self = (Inr (), init (cls self) y e r)"
  by (cases self)
    (simp add: EDMLimit_init_def m_bind_def store_year_def store_edm_e_cm_def store_ref_def init_def)

text \<open>
  Claim C8, as stated: every instance is immutable after construction. The attributes
  are plain: the store that \<open>__init__\<close> uses changes \<open>year\<close> of an instance that is
  already constructed, a second call of \<open>__init__\<close> changes it too, and a store to
  \<open>edm_e_cm\<close> changes what \<open>cEDM\<close> reads.
\<close>

theorem instance_is_immutable_counterexample:
  "snd (store_year 1999 (init NeutronLimit 2020 (1 / 10 ^ 26) ''x'')) \<noteq>
     init NeutronLimit 2020 (1 / 10 ^ 26) ''x'' \<and>
   year (snd (EDMLimit_init 1999 (2 / 10 ^ 26) ''y'' (init NeutronLimit 2020 (1 / 10 ^ 26) ''x''))) \<noteq>
     year (init NeutronLimit 2020 (1 / 10 ^ 26) ''x'') \<and>
   fst (read_property Prop_cEDM
         (snd (store_edm_e_cm (2 / 10 ^ 26) (init NeutronLimit 2020 (1 / 10 ^ 26) ''x'')))) \<noteq>
     fst (read_property Prop_cEDM (init NeutronLimit 2020 (1 / 10 ^ 26) ''x''))"
  by (simp add: store_year_def store_edm_e_cm_def EDMLimit_init_run read_property_run
      hierarchy_defs)

text \<open>
  Claim C8, amended. An instance is not protected against stores: a store to \<open>year\<close>,
  \<open>edm_e_cm\<close> or \<open>ref\<close>, and \<open>__init__\<close> called again, put the new values into it. The
  getters contain no store: after any sequence of reads of \<open>theta_QCD\<close>, \<open>cEDM\<close>, the
  Schiff limit, \<open>_g1\<close>, \<open>new_particle_mass_from_cEDM\<close> and the two electron mass limits,
  the class and the fields \<open>year\<close>, \<open>edm_e_cm\<close> and \<open>ref\<close> are what they were and every
  property reads as it did before. What a read gives is the value of the property as a
  function of the instance, and it depends on the class and on \<open>edm_e_cm\<close> only.
\<close>

theorem reads_leave_instance_unchanged:
  "snd (read_properties ps self) = self \<and>
   cls (snd (read_properties ps self)) = cls self \<and>
   year (snd (read_properties ps self)) = year self \<and>
   edm_e_cm (snd (read_properties ps self)) = edm_e_cm self \<and>
   ref (snd (read_properties ps self)) = ref self \<and>
   fst (read_property p (snd (read_properties ps self))) = fst (read_property p self) \<and>
   fst (read_property p (self\<lparr>year := y, ref := r\<rparr>)) = fst (read_property p self) \<and>
   read_property Prop_theta_QCD self = (map_sum id Obj (theta_QCD self), self) \<and>
   read_property Prop_cEDM self = (map_sum id Obj (cEDM self), self) \<and>
   read_property Prop_schiff_limit self = (map_sum id Obj (private_schiff_limit self), self) \<and>
   read_property Prop_g1 self = (map_sum id Obj (private_g1 self), self) \<and>
   read_property Prop_new_particle_mass_from_cEDM self =
     (map_sum id Np (new_particle_mass_from_cEDM self), self) \<and>
   read_property Prop_one_loop_mass_limit self = (map_sum id Np (one_loop_mass_limit self), self) \<and>
   read_property Prop_two_loop_mass_limit self = (map_sum id Np (two_loop_mass_limit self), self) \<and>
   snd (store_year y self) = self\<lparr>year := y\<rparr> \<and>
   snd (store_edm_e_cm b self) = self\<lparr>edm_e_cm := b\<rparr> \<and>
   snd (store_ref r self) = self\<lparr>ref := r\<rparr> \<and>
   snd (EDMLimit_init y b r self) = init (cls self) y b r"
  using read_property_bound_only [where p = p and self = self and y = y and r = r]
  by (simp add: read_properties_frame read_property_run
      store_year_def store_edm_e_cm_def store_ref_def EDMLimit_init_run)


section \<open>The mass scale of a new particle\<close>

lemma mass_copies_equal:
  "schiff_chromo_EDM_limits_on_new_particle_mass d_q =
   hadronic_chromo_EDM_limits_on_new_particle_mass d_q"
  by (simp add: schiff_chromo_EDM_limits_on_new_particle_mass_def
      hadronic_chromo_EDM_limits_on_new_particle_mass_def)

text \<open>
  Claim C4. For every hadronic class and every bound, \<open>new_particle_mass_from_cEDM\<close> is
  the mass-scale function applied to the chromo-EDM limit of the instance, with
  either copy of the function; and the copy in schiff.py and the copy in hadronic.py
  are the same function.
\<close>

theorem mass_from_cEDM_round_trip:
  assumes "system c \<noteq> None"
  shows "(\<forall>d_q. schiff_chromo_EDM_limits_on_new_particle_mass d_q =
            hadronic_chromo_EDM_limits_on_new_particle_mass d_q) \<and>
         (\<exists>d. cEDM (init c y b r) = Inr (PyFloat d) \<and>
            new_particle_mass_from_cEDM (init c y b r) =
              hadronic_chromo_EDM_limits_on_new_particle_mass (PyFloat d) \<and>
            new_particle_mass_from_cEDM (init c y b r) =
              schiff_chromo_EDM_limits_on_new_particle_mass (PyFloat d))"
proof -
  obtain j where j: "\<And>y b r. cEDM (init c y b r) = Inr (PyFloat (j * b))"
    using cEDM_linear [OF assms] by blast
  show ?thesis
    by (simp add: mass_copies_equal new_particle_mass_from_cEDM_def j)
qed

theorem mass_from_cEDM_round_trip_witness:
  "system HgLimit \<noteq> None \<and>
   new_particle_mass_from_cEDM (init HgLimit 2016 (7.4 / 10 ^ 30) ''Graner2016'') =
     schiff_chromo_EDM_limits_on_new_particle_mass (PyFloat (5.7 / 10 ^ 27))"
proof -
  have c: "cEDM (init HgLimit 2016 (7.4 / 10 ^ 30) ''Graner2016'') = Inr (PyFloat (5.7 / 10 ^ 27))"
    by (simp add: hierarchy_defs)
  have s: "system HgLimit \<noteq> None"
    by simp
  from mass_from_cEDM_round_trip [OF s, of 2016 "7.4 / 10 ^ 30" "''Graner2016''"]
  obtain d where d: "cEDM (init HgLimit 2016 (7.4 / 10 ^ 30) ''Graner2016'') = Inr (PyFloat d)"
    and m: "new_particle_mass_from_cEDM (init HgLimit 2016 (7.4 / 10 ^ 30) ''Graner2016'') =
              schiff_chromo_EDM_limits_on_new_particle_mass (PyFloat d)"
    by blast
  from d c have "d = 5.7 / 10 ^ 27"
    by (simp only: sum.inject pyval.inject)
  with m s show ?thesis
    by (simp only: simp_thms)
qed


section \<open>The frequency sensitivity\<close>

text \<open>Bounds on \<open>pi\<close>, from Machin's formula and from the sine of thirty degrees.\<close>

lemma arctan_le_arg:
  fixes x :: real
  assumes "0 \<le> x"
  shows "arctan x \<le> x"
proof -
  have "\<exists>y. ((\<lambda>t. t - arctan t) has_real_derivative y) (at u) \<and> 0 \<le> y" for u :: real
  proof (intro exI conjI)
    show "((\<lambda>t. t - arctan t) has_real_derivative (1 - inverse (1 + u\<^sup>2))) (at u)"
      by (auto intro!: derivative_eq_intros)
    have "1 \<le> 1 + u\<^sup>2" by simp
    then have "inverse (1 + u\<^sup>2) \<le> 1"
      by (rule inverse_le_1_iff [THEN iffD2, OF disjI2])
    then show "0 \<le> 1 - inverse (1 + u\<^sup>2)" by simp
  qed
  then have "0 - arctan 0 \<le> x - arctan x"
    by (intro DERIV_nonneg_imp_nondecreasing [OF assms]) blast
  then show ?thesis by simp
qed

lemma pi_less_32: "pi < 3.2"
proof -
  have "arctan (1 / 5) \<le> 1 / 5"
    by (rule arctan_le_arg) simp
  moreover have "0 < arctan (1 / 239)"
    by simp
  ultimately have "pi / 4 < 4 / 5"
    using machin by linarith
  then show ?thesis by simp
qed

lemma pi_ge_3: "3 \<le> pi"
proof -
  have "sin (pi / 6) \<le> pi / 6"
    by (rule sin_x_le_x) simp
  then show ?thesis
    by (simp add: sin_30)
qed

lemma frequency_closed_form:
  assumes "0 < coherence_time s" and "0 < efficiency s" and "0 < particle_number s"
    and "0 < measurement_time s" and "0 \<le> down_time s"
  shows "frequency_sensitivity_Hz s =
    Inr (Finite (1 / (2 * pi * coherence_time s * efficiency s *
      sqrt (particle_number s * measurement_time s / (coherence_time s + down_time s)))))"
proof -
  have d: "0 < coherence_time s + down_time s"
    using assms by linarith
  have q: "0 < particle_number s * measurement_time s / (coherence_time s + down_time s)"
    using assms d by simp
  then have sq: "0 < sqrt (particle_number s * measurement_time s / (coherence_time s + down_time s))"
    by (simp only: real_sqrt_gt_zero)
  have pre: "0 < 2 * pi * coherence_time s * efficiency s"
    using assms by simp
  have nz: "2 * pi * coherence_time s * efficiency s *
      sqrt (particle_number s * measurement_time s / (coherence_time s + down_time s)) \<noteq> 0"
    using mult_pos_pos [OF pre sq] by linarith
  have nneg: "\<not> particle_number s * measurement_time s / (coherence_time s + down_time s) < 0"
    using q by linarith
  have dz: "coherence_time s + down_time s \<noteq> 0"
    using d by simp
  show ?thesis
    unfolding frequency_sensitivity_Hz_def Let_def py_truediv_def np_sqrt_def
    using nz nneg dz by (simp del: real_sqrt_gt_0_iff real_sqrt_eq_zero_cancel_iff)
qed


lemma inverse_less:
  fixes a b :: real
  assumes "0 < a" and "a < b"
  shows "1 / b < 1 / a"
  using assms by (simp add: field_simps)

lemma default_radicand:
  "92 < sqrt (1 * 864000 / (100 + 30 / 10 ^ 3))" "sqrt (1 * 864000 / (100 + 30 / 10 ^ 3)) < 93"
proof -
  show "92 < sqrt (1 * 864000 / (100 + 30 / 10 ^ 3))"
    by (rule real_less_rsqrt) simp
  show "sqrt (1 * 864000 / (100 + 30 / 10 ^ 3)) < 93"
    by (rule real_less_lsqrt) simp_all
qed

lemma default_frequency_value:
  "\<bar>1 / (2 * pi * 100 * 0.99 * sqrt (1 * 864000 / (100 + 30 / 10 ^ 3))) - 1.73 / 10 ^ 5\<bar> < 1 / 10 ^ 6"
proof -
  define r :: real where "r = sqrt (1 * 864000 / (100 + 30 / 10 ^ 3))"
  have r: "92 < r" "r < 93"
    unfolding r_def by (rule default_radicand)+
  have "3 * 92 < 3 * r" using r by simp
  also have "3 * r \<le> pi * r"
    using pi_ge_3 r by (intro mult_right_mono) simp_all
  finally have lo: "276 < pi * r" by simp
  have "pi * r < 3.2 * r"
    using pi_less_32 r by (intro mult_strict_right_mono) simp_all
  also have "3.2 * r < 3.2 * 93" using r by simp
  finally have hi: "pi * r < 297.6" by simp
  define D where "D = 2 * pi * 100 * 0.99 * r"
  have D: "D = 198 * (pi * r)" by (simp add: D_def)
  have Dlo: "54648 < D" and Dhi: "D < 58924.8"
    using lo hi by (simp_all add: D)
  define v where "v = 1 / D"
  have "v < 1 / 54648"
    unfolding v_def using Dlo by (intro inverse_less) simp_all
  also have "(1::real) / 54648 < 1.83 / 10 ^ 5"
    by simp
  finally have above: "v < 1.83 / 10 ^ 5" .
  have "(1.63::real) / 10 ^ 5 < 1 / 58924.8"
    by simp
  also have "1 / 58924.8 < v"
    unfolding v_def using Dhi Dlo by (intro inverse_less) simp_all
  finally have below: "1.63 / 10 ^ 5 < v" .
  from above below have "\<bar>v - 1.73 / 10 ^ 5\<bar> < 1 / 10 ^ 6"
    unfolding abs_less_iff by simp
  then have "\<bar>1 / D - 1.73 / 10 ^ 5\<bar> < 1 / 10 ^ 6"
    by (simp only: v_def)
  then show ?thesis
    by (simp only: D_def r_def)
qed

text \<open>
  Claim C2. For settings with positive coherence time, efficiency, particle number and
  measurement time and a down time that is not negative, \<open>frequency_sensitivity_Hz\<close>
  returns \<open>1 / (2 pi tau beta sqrt (N T_total / (tau + T_down)))\<close>; for the default settings
  the result is within \<open>1e-6\<close> of \<open>1.73e-5\<close>.
\<close>

theorem frequency_sensitivity_contract:
  "(\<forall>s. 0 < coherence_time s \<and> 0 < efficiency s \<and> 0 < particle_number s \<and>
        0 < measurement_time s \<and> 0 \<le> down_time s \<longrightarrow>
      frequency_sensitivity_Hz s =
        Inr (Finite (1 / (2 * pi * coherence_time s * efficiency s *
          sqrt (particle_number s * measurement_time s / (coherence_time s + down_time s)))))) \<and>
   (\<exists>v. frequency_sensitivity_Hz MeasurementSettings_default = Inr (Finite v) \<and>
      \<bar>v - 1.73 / 10 ^ 5\<bar> < 1 / 10 ^ 6)"
proof (intro conjI allI impI)
  fix s :: MeasurementSettings
  assume "0 < coherence_time s \<and> 0 < efficiency s \<and> 0 < particle_number s \<and>
        0 < measurement_time s \<and> 0 \<le> down_time s"
  then show "frequency_sensitivity_Hz s =
        Inr (Finite (1 / (2 * pi * coherence_time s * efficiency s *
          sqrt (particle_number s * measurement_time s / (coherence_time s + down_time s)))))"
    by (intro frequency_closed_form) simp_all
next
  have "frequency_sensitivity_Hz MeasurementSettings_default =
      Inr (Finite (1 / (2 * pi * coherence_time MeasurementSettings_default *
        efficiency MeasurementSettings_default *
        sqrt (particle_number MeasurementSettings_default *
          measurement_time MeasurementSettings_default /
          (coherence_time MeasurementSettings_default + down_time MeasurementSettings_default)))))"
    by (rule frequency_closed_form) (simp_all add: MeasurementSettings_default_def)
  then have "frequency_sensitivity_Hz MeasurementSettings_default =
      Inr (Finite (1 / (2 * pi * 100 * 0.99 * sqrt (1 * 864000 / (100 + 30 / 10 ^ 3)))))"
    by (simp only: MeasurementSettings_default_def MeasurementSettings.simps)
  with default_frequency_value
  show "\<exists>v. frequency_sensitivity_Hz MeasurementSettings_default = Inr (Finite v) \<and>
      \<bar>v - 1.73 / 10 ^ 5\<bar> < 1 / 10 ^ 6"
    by blast
qed

theorem frequency_sensitivity_contract_witness:
  "0 < coherence_time MeasurementSettings_default \<and> 0 < efficiency MeasurementSettings_default \<and>
   0 < particle_number MeasurementSettings_default \<and>
   0 < measurement_time MeasurementSettings_default \<and>
   0 \<le> down_time MeasurementSettings_default \<and>
   frequency_sensitivity_Hz MeasurementSettings_default =
     Inr (Finite (1 / (2 * pi * 100 * 0.99 * sqrt (1 * 864000 / (100 + 30 / 10 ^ 3)))))"
proof -
  have h: "0 < coherence_time MeasurementSettings_default \<and> 0 < efficiency MeasurementSettings_default \<and>
   0 < particle_number MeasurementSettings_default \<and>
   0 < measurement_time MeasurementSettings_default \<and>
   0 \<le> down_time MeasurementSettings_default"
    by (simp add: MeasurementSettings_default_def)
  from frequency_sensitivity_contract h
  have "frequency_sensitivity_Hz MeasurementSettings_default =
      Inr (Finite (1 / (2 * pi * coherence_time MeasurementSettings_default *
        efficiency MeasurementSettings_default *
        sqrt (particle_number MeasurementSettings_default *
          measurement_time MeasurementSettings_default /
          (coherence_time MeasurementSettings_default + down_time MeasurementSettings_default)))))"
    by blast
  then have "frequency_sensitivity_Hz MeasurementSettings_default =
      Inr (Finite (1 / (2 * pi * 100 * 0.99 * sqrt (1 * 864000 / (100 + 30 / 10 ^ 3)))))"
    by (simp only: MeasurementSettings_default_def MeasurementSettings.simps)
  with h show ?thesis by (simp only: simp_thms)
qed

section \<open>The pion-nucleon couplings\<close>

lemma prefactor_value: "g_pi_NN_to_Schiff_prefactor = 2 * 995 * 1.254 / 185"
  by (simp add: g_pi_NN_to_Schiff_prefactor_def Let_def)

lemma prefactor_pos: "0 < g_pi_NN_to_Schiff_prefactor"
  by (simp add: prefactor_value)

lemma schiff_moment_finite:
  assumes "0 < coherence_time s" and "0 < efficiency s" and "0 < particle_number s"
    and "0 < measurement_time s" and "0 \<le> down_time s"
    and "c_e c \<noteq> 0" and "c_epsilon_0 c \<noteq> 0" and "c_Bohr_radius c \<noteq> 0"
    and "W_S m \<noteq> 0" and "K_S m \<noteq> 0" and "nucleus_E_field_alignment m \<noteq> 0"
  shows "\<exists>S. schiff_moment_sensitivity c s m = Inr (Finite S)"
proof -
  obtain f where f: "frequency_sensitivity_Hz s = Inr (Finite f)"
    using frequency_closed_form [OF assms(1-5)] by blast
  have w: "W_S_SI c m = Inr (c_e c / (4.0 * pi * c_epsilon_0 c * c_Bohr_radius c ^ 4) * W_S m)"
    using assms(7,8) by (simp add: W_S_SI_def py_truediv_def Let_def)
  have nz: "c_e c / (4.0 * pi * c_epsilon_0 c * c_Bohr_radius c ^ 4) * W_S m * schiff_SI c m \<noteq> 0"
    using assms(6-10) by (simp add: schiff_SI_def Let_def)
  show ?thesis
    using assms(11) nz
    by (simp add: schiff_moment_sensitivity_def theta_QCD_sensitivity_def f w py_truediv_def Let_def)
qed

text \<open>
  Claim C5. For every settings and every molecule with \<open>a_0\<close>, \<open>a_1\<close> and \<open>a_2\<close> not zero,
  each \<open>g_i_sensitivity\<close> is the Schiff moment sensitivity over \<open>prefactor * a_i\<close>, where
  the prefactor is \<open>2 m_N g_A / F_pi\<close> with \<open>g_A = 0.746 - (- 0.508) = 1.254\<close>,
  \<open>F_pi = 185\<close> and \<open>m_N = 995\<close>; an error or a non-finite Schiff sensitivity is passed on.
  The results for \<open>g_0\<close> and \<open>g_2\<close> are absolute values, so not negative; the result for
  \<open>g_1\<close> has the sign of the Schiff sensitivity over \<open>a_1\<close>.
\<close>

theorem g_sensitivities:
  assumes "a_0 m \<noteq> 0" and "a_1 m \<noteq> 0" and "a_2 m \<noteq> 0"
  shows "g_pi_NN_to_Schiff_prefactor = 2 * 995 * (0.746 - (- 0.508)) / 185 \<and>
    (0.746 - (- 0.508) = (1.254::real)) \<and>
    g_0_sensitivity c s m =
      (case schiff_moment_sensitivity c s m of
         Inl err \<Rightarrow> Inl err
       | Inr NonFinite \<Rightarrow> Inr NonFinite
       | Inr (Finite S) \<Rightarrow> Inr (Finite \<bar>S / (g_pi_NN_to_Schiff_prefactor * a_0 m)\<bar>)) \<and>
    g_1_sensitivity c s m =
      (case schiff_moment_sensitivity c s m of
         Inl err \<Rightarrow> Inl err
       | Inr NonFinite \<Rightarrow> Inr NonFinite
       | Inr (Finite S) \<Rightarrow> Inr (Finite (S / (g_pi_NN_to_Schiff_prefactor * a_1 m)))) \<and>
    g_2_sensitivity c s m =
      (case schiff_moment_sensitivity c s m of
         Inl err \<Rightarrow> Inl err
       | Inr NonFinite \<Rightarrow> Inr NonFinite
       | Inr (Finite S) \<Rightarrow> Inr (Finite \<bar>S / (g_pi_NN_to_Schiff_prefactor * a_2 m)\<bar>)) \<and>
    (\<forall>v. g_0_sensitivity c s m = Inr (Finite v) \<longrightarrow> 0 \<le> v) \<and>
    (\<forall>v. g_2_sensitivity c s m = Inr (Finite v) \<longrightarrow> 0 \<le> v) \<and>
    (\<forall>S. schiff_moment_sensitivity c s m = Inr (Finite S) \<longrightarrow>
       (\<exists>v. g_1_sensitivity c s m = Inr (Finite v) \<and> sgn v = sgn (S / a_1 m)))"
proof -
  have nz: "g_pi_NN_to_Schiff_prefactor * a_0 m \<noteq> 0" "g_pi_NN_to_Schiff_prefactor * a_1 m \<noteq> 0"
    "g_pi_NN_to_Schiff_prefactor * a_2 m \<noteq> 0"
    using assms prefactor_pos by simp_all
  have g0: "g_0_sensitivity c s m =
      (case schiff_moment_sensitivity c s m of
         Inl err \<Rightarrow> Inl err
       | Inr NonFinite \<Rightarrow> Inr NonFinite
       | Inr (Finite S) \<Rightarrow> Inr (Finite \<bar>S / (g_pi_NN_to_Schiff_prefactor * a_0 m)\<bar>))"
    using nz by (simp add: g_0_sensitivity_def Let_def split: sum.splits npfloat.splits)
  have g1: "g_1_sensitivity c s m =
      (case schiff_moment_sensitivity c s m of
         Inl err \<Rightarrow> Inl err
       | Inr NonFinite \<Rightarrow> Inr NonFinite
       | Inr (Finite S) \<Rightarrow> Inr (Finite (S / (g_pi_NN_to_Schiff_prefactor * a_1 m))))"
    using nz by (simp add: g_1_sensitivity_def Let_def split: sum.splits npfloat.splits)
  have g2: "g_2_sensitivity c s m =
      (case schiff_moment_sensitivity c s m of
         Inl err \<Rightarrow> Inl err
       | Inr NonFinite \<Rightarrow> Inr NonFinite
       | Inr (Finite S) \<Rightarrow> Inr (Finite \<bar>S / (g_pi_NN_to_Schiff_prefactor * a_2 m)\<bar>))"
    using nz by (simp add: g_2_sensitivity_def Let_def split: sum.splits npfloat.splits)
  have p0: "\<forall>v. g_0_sensitivity c s m = Inr (Finite v) \<longrightarrow> 0 \<le> v"
    unfolding g0 by (auto split: sum.splits npfloat.splits)
  have p2: "\<forall>v. g_2_sensitivity c s m = Inr (Finite v) \<longrightarrow> 0 \<le> v"
    unfolding g2 by (auto split: sum.splits npfloat.splits)
  have sg: "sgn (S / (g_pi_NN_to_Schiff_prefactor * a_1 m)) = sgn (S / a_1 m)" for S
    using prefactor_pos by (simp add: sgn_mult)
  have p1: "\<forall>S. schiff_moment_sensitivity c s m = Inr (Finite S) \<longrightarrow>
       (\<exists>v. g_1_sensitivity c s m = Inr (Finite v) \<and> sgn v = sgn (S / a_1 m))"
    unfolding g1 using sg by simp
  have v: "g_pi_NN_to_Schiff_prefactor = 2 * 995 * (0.746 - (- 0.508)) / 185"
    by (simp add: prefactor_value)
  have a: "0.746 - (- 0.508) = (1.254::real)"
    by simp
  from v a g0 g1 g2 p0 p2 p1 show ?thesis
    by (intro conjI)
qed


theorem g_sensitivities_witness:
  "a_0 Molecule_default \<noteq> 0 \<and> a_1 Molecule_default \<noteq> 0 \<and> a_2 Molecule_default \<noteq> 0 \<and>
   (\<exists>S. schiff_moment_sensitivity
          \<lparr>c_e = 1.602176634 / 10 ^ 19, c_hbar = 1.054571817 / 10 ^ 34,
           c_epsilon_0 = 8.8541878128 / 10 ^ 12, c_Bohr_radius = 5.29177210903 / 10 ^ 11\<rparr>
          MeasurementSettings_default Molecule_default = Inr (Finite S) \<and>
        g_1_sensitivity
          \<lparr>c_e = 1.602176634 / 10 ^ 19, c_hbar = 1.054571817 / 10 ^ 34,
           c_epsilon_0 = 8.8541878128 / 10 ^ 12, c_Bohr_radius = 5.29177210903 / 10 ^ 11\<rparr>
          MeasurementSettings_default Molecule_default =
          Inr (Finite (S / (g_pi_NN_to_Schiff_prefactor * 6))))"
proof -
  define C where "C = \<lparr>c_e = 1.602176634 / 10 ^ 19, c_hbar = 1.054571817 / 10 ^ 34,
           c_epsilon_0 = 8.8541878128 / 10 ^ 12, c_Bohr_radius = 5.29177210903 / 10 ^ 11\<rparr>"
  have a: "a_0 Molecule_default \<noteq> 0" "a_1 Molecule_default \<noteq> 0" "a_2 Molecule_default \<noteq> 0"
    by (simp_all add: Molecule_default_def Molecule_init_def)
  have a1: "a_1 Molecule_default = 6"
    by (simp add: Molecule_default_def Molecule_init_def)
  obtain S where S: "schiff_moment_sensitivity C MeasurementSettings_default Molecule_default =
      Inr (Finite S)"
    using schiff_moment_finite [of MeasurementSettings_default C Molecule_default]
    by (auto simp add: C_def MeasurementSettings_default_def Molecule_default_def Molecule_init_def)
  from g_sensitivities [OF a, of C MeasurementSettings_default]
  have "g_1_sensitivity C MeasurementSettings_default Molecule_default =
      (case schiff_moment_sensitivity C MeasurementSettings_default Molecule_default of
         Inl err \<Rightarrow> Inl err
       | Inr NonFinite \<Rightarrow> Inr NonFinite
       | Inr (Finite S) \<Rightarrow> Inr (Finite (S / (g_pi_NN_to_Schiff_prefactor * a_1 Molecule_default))))"
    by blast
  then have "g_1_sensitivity C MeasurementSettings_default Molecule_default =
      Inr (Finite (S / (g_pi_NN_to_Schiff_prefactor * 6)))"
    by (simp add: S a1)
  with S a show ?thesis
    unfolding C_def by blast
qed

end
